theory Spec2Isabelle
  imports Complex_Main
begin

section \<open>The race server (\<^verbatim>\<open>src/server.js\<close>) as a state-passing model\<close>

text \<open>
  The server keeps one mutable object \<^verbatim>\<open>gameState\<close>, three collections of sockets and,
  per connection, the two closure variables \<^verbatim>\<open>clientType\<close> and \<^verbatim>\<open>playerId\<close>.
  Every handler runs to completion, so each handler is a function from the state before
  to the state after, together with the list of messages it sends.

  Conventions of the embedding:
  \<^item> JavaScript numbers that carry physical quantities (intensity, position, speed
    coefficient) are \<open>real\<close>; rounding of IEEE doubles is not modelled. Counts and team
    ids are \<open>int\<close>, timestamps (\<^verbatim>\<open>Date.now()\<close>) are \<open>int\<close> milliseconds.
  \<^item> \<^verbatim>\<open>Date.now()\<close> and the generated player id are inputs of the handler that reads them.
  \<^item> \<^verbatim>\<open>gameState.teams\<close> is an association list in key order, which for the integer keys
    \<open>1..numTeams\<close> is the order of \<^verbatim>\<open>Object.values\<close>. A team object mutated in place is
    the entry under its key, rewritten.
  \<^item> \<^verbatim>\<open>gameState.winner\<close> holds a reference to a team object; the handlers only test it
    for null and read its \<^verbatim>\<open>id\<close>, which is never assigned after creation, so the model
    stores that id.
  \<^item> a parsed message is a record of the fields the handlers destructure; an absent
    field is \<open>None\<close> (or the empty string for \<^verbatim>\<open>teamName\<close>, which is only tested for
    truthiness). Fields carry values of the type the handlers compute with: a team id
    and the counts are integers, intensity and speed coefficient are numbers.
\<close>

subsection \<open>Data\<close>

type_synonym player_id = string
type_synonym conn_id = nat

datatype game_status = Registration | Racing | Finished

datatype client_type = Display | Admin | Player

record game_settings =
  numTeams :: int
  maxPlayers :: int
  minTeams :: int
  speedCoef :: real
  baseSpeed :: real

record team =
  t_id :: int
  t_name :: string
  t_players :: "player_id list"
  t_position :: real
  t_shakeIntensity :: real

record player =
  p_id :: player_id
  p_teamId :: int
  p_shakeIntensity :: real
  p_lastShake :: int

record game_state =
  settings :: game_settings
  teams :: "(int \<times> team) list"
  players :: "player_id \<rightharpoonup> player"
  gameStatus :: game_status
  raceStartTime :: "int option"
  winner :: "int option"

record server =
  gameState :: game_state
  clients :: "player_id \<rightharpoonup> conn_id"
  displayClients :: "conn_id set"
  adminClients :: "conn_id set"

record conn_local =
  clientType :: "client_type option"
  playerId :: "player_id option"

record msg_data =
  m_type :: string
  m_teamId :: "int option"
  m_teamName :: string
  m_intensity :: real
  m_numTeams :: "int option"
  m_maxPlayers :: "int option"
  m_minTeams :: "int option"
  m_speedCoef :: "real option"

text \<open>What \<^verbatim>\<open>JSON.parse\<close> and the first read of \<^verbatim>\<open>data.type\<close> make of the raw frame:
  either they throw, or there is a message object.\<close>

datatype recv = Unparsable | Data msg_data

datatype target = Conn conn_id | AllClients | Displays

datatype outbound =
    Game_state game_state
  | Player_registered player_id int string
  | Error_msg string
  | Race_started game_state
  | Settings_updated game_state
  | Game_reset game_state
  | Race_update "(int \<times> string \<times> real \<times> real \<times> nat) list" "int option"
  | Race_finished "int option"

type_synonym outputs = "(target \<times> outbound) list"

subsection \<open>Initial state and \<^verbatim>\<open>initializeTeams\<close>\<close>

definition fresh_team :: "int \<Rightarrow> team" where
  "fresh_team i = \<lparr>t_id = i, t_name = [], t_players = [], t_position = 0, t_shakeIntensity = 0\<rparr>"

definition initializeTeams :: "game_state \<Rightarrow> game_state" where
  "initializeTeams g = g\<lparr>teams := map (\<lambda>i. (i, fresh_team i)) [1..numTeams (settings g)]\<rparr>"

definition initial_settings :: game_settings where
  "initial_settings = \<lparr>numTeams = 7, maxPlayers = 3, minTeams = 1, speedCoef = 1, baseSpeed = 1000 / 330\<rparr>"

definition initial_gameState :: game_state where
  "initial_gameState = initializeTeams
     \<lparr>settings = initial_settings, teams = [], players = Map.empty,
      gameStatus = Registration, raceStartTime = None, winner = None\<rparr>"

definition initial_server :: server where
  "initial_server = \<lparr>gameState = initial_gameState, clients = Map.empty,
     displayClients = {}, adminClients = {}\<rparr>"

definition initial_local :: conn_local where
  "initial_local = \<lparr>clientType = None, playerId = None\<rparr>"

subsection \<open>Helpers for in-place mutation of a team object\<close>

definition update_team :: "int \<Rightarrow> (team \<Rightarrow> team) \<Rightarrow> (int \<times> team) list \<Rightarrow> (int \<times> team) list" where
  "update_team k f ts = map (\<lambda>(k', t). if k' = k then (k', f t) else (k', t)) ts"

definition team_values :: "game_state \<Rightarrow> team list" where
  "team_values g = map snd (teams g)"

subsection \<open>The message handler\<close>

definition register_player ::
  "conn_id \<Rightarrow> int \<Rightarrow> player_id \<Rightarrow> msg_data \<Rightarrow> conn_local \<Rightarrow> server \<Rightarrow> (conn_local \<times> server) \<times> outputs" where
  "register_player ws now newId d l s =
     (let g = gameState s in
      case (case m_teamId d of None \<Rightarrow> None | Some k \<Rightarrow> map_option (Pair k) (map_of (teams g) k)) of
        None \<Rightarrow> ((l, s), [(Conn ws, Error_msg ''Invalid team'')])
      | Some (teamId, tm) \<Rightarrow>
          if int (length (t_players tm)) \<ge> maxPlayers (settings g)
          then ((l, s), [(Conn ws, Error_msg ''Team is full'')])
          else
            let tm1 = (if length (t_players tm) = 0 \<and> m_teamName d \<noteq> []
                       then tm\<lparr>t_name := m_teamName d\<rparr> else tm);
                l' = l\<lparr>playerId := Some newId, clientType := Some Player\<rparr>;
                rec = \<lparr>p_id = newId, p_teamId = teamId, p_shakeIntensity = 0, p_lastShake = now\<rparr>;
                tm2 = tm1\<lparr>t_players := t_players tm1 @ [newId]\<rparr>;
                g' = g\<lparr>players := (players g)(newId \<mapsto> rec),
                        teams := update_team teamId (\<lambda>_. tm2) (teams g)\<rparr>;
                s' = s\<lparr>gameState := g', clients := (clients s)(newId \<mapsto> ws)\<rparr>
            in ((l', s'),
                [(Conn ws, Player_registered newId teamId (t_name tm2)),
                 (AllClients, Game_state g')]))"

definition update_shake :: "int \<Rightarrow> msg_data \<Rightarrow> conn_local \<Rightarrow> server \<Rightarrow> server" where
  "update_shake now d l s =
     (let g = gameState s in
      case playerId l of
        None \<Rightarrow> s
      | Some pid \<Rightarrow>
          (case players g pid of
             None \<Rightarrow> s
           | Some p \<Rightarrow>
               s\<lparr>gameState := g\<lparr>players := (players g)(pid \<mapsto>
                    p\<lparr>p_shakeIntensity := m_intensity d, p_lastShake := now\<rparr>)\<rparr>\<rparr>))"

definition registeredCount :: "game_state \<Rightarrow> nat" where
  "registeredCount g = length (filter (\<lambda>t. length (t_players t) > 0) (team_values g))"

definition start_race :: "int \<Rightarrow> conn_local \<Rightarrow> server \<Rightarrow> server \<times> outputs" where
  "start_race now l s =
     (if clientType l = Some Admin \<or> clientType l = Some Display then
        let g = gameState s
        in if int (registeredCount g) \<ge> minTeams (settings g) then
             let g' = g\<lparr>gameStatus := Racing, raceStartTime := Some now, winner := None,
                        teams := map (\<lambda>(k, t). (k, t\<lparr>t_position := 0, t_shakeIntensity := 0\<rparr>)) (teams g)\<rparr>
             in (s\<lparr>gameState := g'\<rparr>, [(AllClients, Race_started g')])
           else (s, [])
      else (s, []))"

definition truthy_int :: "int option \<Rightarrow> bool" where
  "truthy_int v = (case v of None \<Rightarrow> False | Some n \<Rightarrow> n \<noteq> 0)"

definition truthy_real :: "real option \<Rightarrow> bool" where
  "truthy_real v = (case v of None \<Rightarrow> False | Some x \<Rightarrow> x \<noteq> 0)"

definition apply_settings :: "msg_data \<Rightarrow> game_settings \<Rightarrow> game_settings" where
  "apply_settings d st =
     (let st1 = (if truthy_int (m_numTeams d) then st\<lparr>numTeams := the (m_numTeams d)\<rparr> else st);
          st2 = (if truthy_int (m_maxPlayers d) then st1\<lparr>maxPlayers := the (m_maxPlayers d)\<rparr> else st1);
          st3 = (if truthy_int (m_minTeams d) then st2\<lparr>minTeams := the (m_minTeams d)\<rparr> else st2);
          st4 = (if truthy_real (m_speedCoef d) then st3\<lparr>speedCoef := the (m_speedCoef d)\<rparr> else st3)
      in st4)"

definition update_settings :: "msg_data \<Rightarrow> conn_local \<Rightarrow> server \<Rightarrow> server \<times> outputs" where
  "update_settings d l s =
     (if clientType l = Some Admin then
        let g = gameState s;
            g' = initializeTeams (g\<lparr>settings := apply_settings d (settings g)\<rparr>)
        in (s\<lparr>gameState := g'\<rparr>, [(AllClients, Settings_updated g')])
      else (s, []))"

definition reset_game :: "conn_local \<Rightarrow> server \<Rightarrow> server \<times> outputs" where
  "reset_game l s =
     (if clientType l = Some Admin \<or> clientType l = Some Display then
        let g = gameState s;
            g' = initializeTeams (g\<lparr>gameStatus := Registration, raceStartTime := None,
                                    winner := None, players := Map.empty\<rparr>)
        in (s\<lparr>gameState := g', clients := Map.empty\<rparr>, [(AllClients, Game_reset g')])
      else (s, []))"

text \<open>The body of \<^verbatim>\<open>ws.on('message')\<close>. A \<^verbatim>\<open>switch\<close> without \<^verbatim>\<open>default\<close> does nothing for
  a type that matches no \<^verbatim>\<open>case\<close>; the \<^verbatim>\<open>catch\<close> block answers only when something threw.\<close>

definition handle_message ::
  "conn_id \<Rightarrow> int \<Rightarrow> player_id \<Rightarrow> recv \<Rightarrow> conn_local \<Rightarrow> server \<Rightarrow> (conn_local \<times> server) \<times> outputs" where
  "handle_message ws now newId r l s =
     (case r of
        Unparsable \<Rightarrow> ((l, s), [(Conn ws, Error_msg ''Server error'')])
      | Data d \<Rightarrow>
          if m_type d = ''request_state'' \<and> clientType l = None then
            ((l, s), [(Conn ws, Game_state (gameState s))])
          else if m_type d = ''register_display'' then
            ((l\<lparr>clientType := Some Display\<rparr>, s\<lparr>displayClients := insert ws (displayClients s)\<rparr>),
             [(Conn ws, Game_state (gameState s))])
          else if m_type d = ''register_admin'' then
            ((l\<lparr>clientType := Some Admin\<rparr>, s\<lparr>adminClients := insert ws (adminClients s)\<rparr>),
             [(Conn ws, Game_state (gameState s))])
          else if m_type d = ''register_player'' then register_player ws now newId d l s
          else if m_type d = ''update_shake'' then ((l, update_shake now d l s), [])
          else if m_type d = ''start_race'' then
            (let (s', out) = start_race now l s in ((l, s'), out))
          else if m_type d = ''update_settings'' then
            (let (s', out) = update_settings d l s in ((l, s'), out))
          else if m_type d = ''reset_game'' then
            (let (s', out) = reset_game l s in ((l, s'), out))
          else ((l, s), []))"

subsection \<open>The close handler\<close>

definition on_close :: "conn_id \<Rightarrow> conn_local \<Rightarrow> server \<Rightarrow> server \<times> outputs" where
  "on_close ws l s =
     (if clientType l = Some Display then (s\<lparr>displayClients := displayClients s - {ws}\<rparr>, [])
      else if clientType l = Some Admin then (s\<lparr>adminClients := adminClients s - {ws}\<rparr>, [])
      else if clientType l = Some Player \<and> playerId l \<noteq> None then
        let pid = the (playerId l);
            g = gameState s;
            g' = (case players g pid of
                    None \<Rightarrow> g
                  | Some p \<Rightarrow>
                      g\<lparr>teams := update_team (p_teamId p)
                                    (\<lambda>t. t\<lparr>t_players := filter (\<lambda>i. i \<noteq> pid) (t_players t)\<rparr>) (teams g),
                        players := (players g)(pid := None)\<rparr>);
            s' = s\<lparr>gameState := g', clients := (clients s)(pid := None)\<rparr>
        in (s', [(AllClients, Game_state g')])
      else (s, []))"

subsection \<open>The game loop (\<^verbatim>\<open>setInterval\<close>, every 50 ms)\<close>

definition trackWidth :: real where
  "trackWidth = 1000"

definition totalIntensity :: "(player_id \<rightharpoonup> player) \<Rightarrow> player_id list \<Rightarrow> real" where
  "totalIntensity ps ids =
     fold (\<lambda>pid total. case ps pid of None \<Rightarrow> total | Some p \<Rightarrow> total + p_shakeIntensity p) ids 0"

text \<open>The part of the loop state that the body of \<^verbatim>\<open>activeTeams.forEach\<close> reads and
  writes besides the team itself: \<^verbatim>\<open>gameState.winner\<close>, \<^verbatim>\<open>gameState.gameStatus\<close>, \<^verbatim>\<open>hasWinner\<close>.\<close>

type_synonym race_acc = "int option \<times> game_status \<times> bool"

definition advance_team ::
  "game_settings \<Rightarrow> (player_id \<rightharpoonup> player) \<Rightarrow> team \<Rightarrow> race_acc \<Rightarrow> team \<times> race_acc" where
  "advance_team st ps t acc =
     (case acc of (w, gs, hw) \<Rightarrow>
        let total = totalIntensity ps (t_players t);
            speed = total * speedCoef st * baseSpeed st;
            t' = t\<lparr>t_shakeIntensity := total, t_position := t_position t + speed * 0.05\<rparr>
        in if t_position t' \<ge> trackWidth \<and> w = None
           then (t', (Some (t_id t'), Finished, True))
           else (t', (w, gs, hw)))"

text \<open>\<^verbatim>\<open>activeTeams.forEach\<close>: the teams with at least one member are visited in key order
  and mutated in place; the others are left as they are.\<close>

fun advance_teams ::
  "game_settings \<Rightarrow> (player_id \<rightharpoonup> player) \<Rightarrow> (int \<times> team) list \<Rightarrow> race_acc \<Rightarrow> (int \<times> team) list \<times> race_acc" where
  "advance_teams st ps [] acc = ([], acc)"
| "advance_teams st ps ((k, t) # ts) acc =
     (if length (t_players t) > 0
      then (case advance_team st ps t acc of (t', acc') \<Rightarrow>
              (case advance_teams st ps ts acc' of (ts', acc'') \<Rightarrow> ((k, t') # ts', acc'')))
      else (case advance_teams st ps ts acc of (ts', acc'') \<Rightarrow> ((k, t) # ts', acc'')))"

definition team_view :: "team \<Rightarrow> int \<times> string \<times> real \<times> real \<times> nat" where
  "team_view t = (t_id t, t_name t, t_position t, t_shakeIntensity t, length (t_players t))"

definition race_step :: "game_state \<Rightarrow> game_state \<times> outputs" where
  "race_step g =
     (case advance_teams (settings g) (players g) (teams g) (winner g, gameStatus g, False) of
        (ts', (w', gs', hasWinner)) \<Rightarrow>
          let g' = g\<lparr>teams := ts', winner := w', gameStatus := gs'\<rparr>;
              activeTeams = filter (\<lambda>t. length (t_players t) > 0) (team_values g')
          in (g', (Displays, Race_update (map team_view activeTeams) (winner g'))
                  # (if hasWinner then [(AllClients, Race_finished (winner g'))] else [])))"

definition decay_player :: "int \<Rightarrow> player \<Rightarrow> player" where
  "decay_player now p =
     (if now - p_lastShake p > 200
      then p\<lparr>p_shakeIntensity := max 0 (p_shakeIntensity p - 0.5)\<rparr>
      else p)"

definition decay :: "int \<Rightarrow> game_state \<Rightarrow> game_state" where
  "decay now g = g\<lparr>players := (\<lambda>pid. map_option (decay_player now) (players g pid))\<rparr>"

definition tick_game :: "int \<Rightarrow> game_state \<Rightarrow> game_state \<times> outputs" where
  "tick_game now g =
     (case (if gameStatus g = Racing then race_step g else (g, [])) of
        (g1, out) \<Rightarrow> (decay now g1, out))"

definition tick :: "int \<Rightarrow> server \<Rightarrow> server \<times> outputs" where
  "tick now s = (case tick_game now (gameState s) of (g', out) \<Rightarrow> (s\<lparr>gameState := g'\<rparr>, out))"

subsection \<open>Runs of the server\<close>

text \<open>An event is one invocation of a handler. A message event carries the values the
  handler would read from the clock and the id generator.\<close>

datatype event =
    Message conn_id int player_id recv
  | Close conn_id
  | Tick int

record system =
  srv :: server
  locals :: "conn_id \<Rightarrow> conn_local"

definition initial_system :: system where
  "initial_system = \<lparr>srv = initial_server, locals = (\<lambda>_. initial_local)\<rparr>"

fun step :: "system \<Rightarrow> event \<Rightarrow> system" where
  "step sys (Message ws now newId r) =
     (case handle_message ws now newId r (locals sys ws) (srv sys) of
        ((l', s'), _) \<Rightarrow> sys\<lparr>srv := s', locals := (locals sys)(ws := l')\<rparr>)"
| "step sys (Close ws) = sys\<lparr>srv := fst (on_close ws (locals sys ws) (srv sys))\<rparr>"
| "step sys (Tick now) = sys\<lparr>srv := fst (tick now (srv sys))\<rparr>"

definition run :: "system \<Rightarrow> event list \<Rightarrow> system" where
  "run sys evs = foldl step sys evs"

definition game_of :: "system \<Rightarrow> game_state" where
  "game_of sys = gameState (srv sys)"

definition msg :: "string \<Rightarrow> msg_data" where
  "msg ty = \<lparr>m_type = ty, m_teamId = None, m_teamName = [], m_intensity = 0,
            m_numTeams = None, m_maxPlayers = None, m_minTeams = None, m_speedCoef = None\<rparr>"

definition register_msg :: "int \<Rightarrow> string \<Rightarrow> msg_data" where
  "register_msg k nm = (msg ''register_player'')\<lparr>m_teamId := Some k, m_teamName := nm\<rparr>"

definition shake_msg :: "real \<Rightarrow> msg_data" where
  "shake_msg x = (msg ''update_shake'')\<lparr>m_intensity := x\<rparr>"

section \<open>Vocabulary of the properties\<close>


definition msg_type :: "recv \<Rightarrow> string option" where
  "msg_type r = (case r of Unparsable \<Rightarrow> None | Data d \<Rightarrow> Some (m_type d))"

fun event_type :: "event \<Rightarrow> string option" where
  "event_type (Message ws now newId r) = msg_type r"
| "event_type _ = None"

text \<open>The role guard of \<^verbatim>\<open>start_race\<close> and \<^verbatim>\<open>reset_game\<close>.\<close>

definition may_control :: "conn_local \<Rightarrow> bool" where
  "may_control l = (clientType l = Some Admin \<or> clientType l = Some Display)"




text \<open>Fields of \<^verbatim>\<open>gameState.teams[k]\<close>, when there is such a team.\<close>

definition team_name_of :: "game_state \<Rightarrow> int \<Rightarrow> string option" where
  "team_name_of g k = map_option t_name (map_of (teams g) k)"

definition members_of :: "game_state \<Rightarrow> int \<Rightarrow> player_id list option" where
  "members_of g k = map_option t_players (map_of (teams g) k)"

definition position_of :: "game_state \<Rightarrow> int \<Rightarrow> real option" where
  "position_of g k = map_option t_position (map_of (teams g) k)"


text \<open>The order of the two passes as the specification describes it (decay, then
  integrate), to be compared with \<open>tick_game\<close>, which is the order of the source.\<close>

definition tick_decay_first :: "int \<Rightarrow> game_state \<Rightarrow> game_state" where
  "tick_decay_first now g =
     (let g1 = decay now g in if gameStatus g1 = Racing then fst (race_step g1) else g1)"

subsection \<open>Concrete scenarios\<close>

definition admin_local :: conn_local where
  "admin_local = \<lparr>clientType = Some Admin, playerId = None\<rparr>"

definition player_local :: "player_id \<Rightarrow> conn_local" where
  "player_local pid = \<lparr>clientType = Some Player, playerId = Some pid\<rparr>"

definition first_join :: "event list" where
  "first_join = [Message 1 1000 ''p1'' (Data (register_msg 1 ''Red''))]"



text \<open>One player on team 1, an admin starts the race, the player reports intensity 3
  and then stays silent.\<close>

definition racing_idle :: "event list" where
  "racing_idle = [Message 1 1000 ''p1'' (Data (register_msg 1 ''Red'')),
                  Message 2 1001 ''x'' (Data (msg ''register_admin'')),
                  Message 2 1002 ''x'' (Data (msg ''start_race'')),
                  Message 1 1003 ''x'' (Data (shake_msg 3))]"

definition rejoin_after_leave :: "event list" where
  "rejoin_after_leave = [Message 1 1000 ''p1'' (Data (register_msg 1 ''Red'')),
                         Close 1,
                         Message 2 1001 ''p2'' (Data (register_msg 1 ''Blue''))]"

definition settings_after_join :: "event list" where
  "settings_after_join = [Message 1 1000 ''p1'' (Data (register_msg 1 ''Red'')),
                          Message 2 1001 ''x'' (Data (msg ''register_admin'')),
                          Message 2 1002 ''x'' (Data (msg ''update_settings''))]"

definition reset_after_join :: "event list" where
  "reset_after_join = [Message 1 1000 ''p1'' (Data (register_msg 1 ''Red'')),
                       Message 2 1001 ''x'' (Data (msg ''register_admin'')),
                       Message 2 1002 ''x'' (Data (msg ''reset_game''))]"

text \<open>Two teams with one player each; an admin starts the race; team 1 reports an
  intensity that crosses the line in one tick, team 2 a small one.\<close>

definition two_teams_racing :: "event list" where
  "two_teams_racing = [Message 1 1000 ''p1'' (Data (register_msg 1 ''Red'')),
                       Message 2 1001 ''p2'' (Data (register_msg 2 ''Blue'')),
                       Message 3 1002 ''x'' (Data (msg ''register_admin'')),
                       Message 3 1003 ''x'' (Data (msg ''start_race'')),
                       Message 1 1004 ''x'' (Data (shake_msg 1000000)),
                       Message 2 1005 ''x'' (Data (shake_msg 7))]"

definition first_race :: "event list" where
  "first_race = two_teams_racing @ [Tick 1050]"

definition restart :: event where
  "restart = Message 3 1060 ''x'' (Data (msg ''start_race''))"

definition second_race :: "event list" where
  "second_race = [restart,
                  Message 1 1061 ''x'' (Data (shake_msg 0)),
                  Message 2 1062 ''x'' (Data (shake_msg 1000000)),
                  Tick 1100]"

section \<open>Basic facts about the handlers\<close>

lemma map_of_update_team:
  "map_of (update_team k f ts) k' = (if k' = k then map_option f (map_of ts k') else map_of ts k')"
  by (induction ts) (auto simp: update_team_def)

text \<open>The server state after a parsed message, branch by branch.\<close>

lemma handle_message_srv:
  "snd (fst (handle_message ws now newId (Data d) l s)) =
     (if m_type d = ''request_state'' \<and> clientType l = None then s
      else if m_type d = ''register_display'' then s\<lparr>displayClients := insert ws (displayClients s)\<rparr>
      else if m_type d = ''register_admin'' then s\<lparr>adminClients := insert ws (adminClients s)\<rparr>
      else if m_type d = ''register_player'' then snd (fst (register_player ws now newId d l s))
      else if m_type d = ''update_shake'' then update_shake now d l s
      else if m_type d = ''start_race'' then fst (start_race now l s)
      else if m_type d = ''update_settings'' then fst (update_settings d l s)
      else if m_type d = ''reset_game'' then fst (reset_game l s)
      else s)"
  by (simp add: handle_message_def split_def Let_def)

text \<open>An accepted registration, written out.\<close>

lemma register_player_accepted:
  assumes "m_teamId d = Some k" "map_of (teams (gameState s)) k = Some tm"
    "\<not> int (length (t_players tm)) \<ge> maxPlayers (settings (gameState s))"
  shows "fst (register_player ws now newId d l s) =
    (l\<lparr>playerId := Some newId, clientType := Some Player\<rparr>,
      s\<lparr>gameState := (gameState s)\<lparr>
           players := (players (gameState s))(newId \<mapsto>
              \<lparr>p_id = newId, p_teamId = k, p_shakeIntensity = 0, p_lastShake = now\<rparr>),
           teams := update_team k
              (\<lambda>_. (if t_players tm = [] \<and> m_teamName d \<noteq> [] then tm\<lparr>t_name := m_teamName d\<rparr> else tm)
                     \<lparr>t_players := t_players tm @ [newId]\<rparr>) (teams (gameState s))\<rparr>,
        clients := (clients s)(newId \<mapsto> ws)\<rparr>)"
  using assms by (simp add: register_player_def Let_def)

lemma register_player_rejected:
  assumes "m_teamId d = Some k" "map_of (teams (gameState s)) k = Some tm"
    "int (length (t_players tm)) \<ge> maxPlayers (settings (gameState s))"
  shows "fst (register_player ws now newId d l s) = (l, s)"
  using assms by (simp add: register_player_def Let_def)

lemma start_race_rejected:
  "\<not> (may_control l \<and> int (registeredCount (gameState s)) \<ge> minTeams (settings (gameState s)))
   \<Longrightarrow> start_race now l s = (s, [])"
  by (auto simp: start_race_def may_control_def Let_def)

subsection \<open>The loop over the active teams\<close>

text \<open>What the loop body writes into a team does not depend on the winner bookkeeping.\<close>

lemma advance_team_fst:
  "fst (advance_team st ps t acc) =
     t\<lparr>t_shakeIntensity := totalIntensity ps (t_players t),
       t_position := t_position t + totalIntensity ps (t_players t) * speedCoef st * baseSpeed st * 0.05\<rparr>"
  by (cases acc) (simp add: advance_team_def Let_def)

lemma advance_teams_fst:
  "fst (advance_teams st ps ts acc) =
     map (\<lambda>(k, t). if t_players t \<noteq> [] then (k, fst (advance_team st ps t acc0)) else (k, t)) ts"
proof (induction ts arbitrary: acc)
  case Nil
  show ?case by simp
next
  case (Cons kt ts)
  obtain k t where kt: "kt = (k, t)" by (cases kt)
  have same: "fst (advance_team st ps t acc) = fst (advance_team st ps t acc0)"
    by (simp add: advance_team_fst)
  show ?case
  proof (cases "t_players t = []")
    case True
    with Cons.IH [of acc] show ?thesis
      by (cases "advance_teams st ps ts acc") (simp add: kt)
  next
    case False
    obtain t' acc' where a: "advance_team st ps t acc = (t', acc')"
      by (cases "advance_team st ps t acc")
    with same have "t' = fst (advance_team st ps t acc0)" by simp
    with Cons.IH [of acc'] False a show ?thesis
      by (cases "advance_teams st ps ts acc'") (simp add: kt)
  qed
qed

text \<open>Once a winner is set, the loop leaves the bookkeeping alone: the assignment is
  guarded by \<^verbatim>\<open>!gameState.winner\<close>.\<close>

lemma advance_team_winner_set: "snd (advance_team st ps t (Some w, gs, hw)) = (Some w, gs, hw)"
  by (simp add: advance_team_def Let_def)

lemma advance_teams_winner_set: "snd (advance_teams st ps ts (Some w, gs, hw)) = (Some w, gs, hw)"
proof (induction ts)
  case Nil
  show ?case by simp
next
  case (Cons kt ts)
  obtain k t where kt: "kt = (k, t)" by (cases kt)
  obtain t' where t': "advance_team st ps t (Some w, gs, hw) = (t', (Some w, gs, hw))"
    using advance_team_winner_set [of st ps t w gs hw]
    by (cases "advance_team st ps t (Some w, gs, hw)") simp
  from Cons.IH show ?case
    by (cases "advance_teams st ps ts (Some w, gs, hw)") (simp add: kt t')
qed

lemma race_step_players: "players (fst (race_step g)) = players g"
  by (simp add: race_step_def Let_def split: prod.splits)

lemma tick_game_players:
  "players (fst (tick_game now g)) pid = map_option (decay_player now) (players g pid)"
  by (cases "race_step g") (use race_step_players [of g] in \<open>simp add: tick_game_def decay_def\<close>)

lemma tick_game_teams_racing:
  assumes "gameStatus g = Racing"
  shows "teams (fst (tick_game now g)) =
     map (\<lambda>(k, t). if t_players t \<noteq> []
            then (k, fst (advance_team (settings g) (players g) t (None, Racing, False))) else (k, t)) (teams g)"
proof -
  obtain ts' acc' where
    a: "advance_teams (settings g) (players g) (teams g) (winner g, gameStatus g, False) = (ts', acc')"
    by (cases "advance_teams (settings g) (players g) (teams g) (winner g, gameStatus g, False)")
  have "teams (fst (tick_game now g)) = ts'"
    using assms a by (simp add: tick_game_def race_step_def decay_def Let_def split: prod.splits)
  with advance_teams_fst [of "settings g" "players g" "teams g" "(winner g, gameStatus g, False)"
      "(None, Racing, False)"] a
  show ?thesis by simp
qed


section \<open>The winner\<close>

lemma race_step_winner_set:
  assumes "winner g = Some w"
  shows "winner (fst (race_step g)) = Some w"
proof -
  obtain ts' where "advance_teams (settings g) (players g) (teams g) (winner g, gameStatus g, False)
      = (ts', (Some w, gameStatus g, False))"
    using advance_teams_winner_set [of "settings g" "players g" "teams g" w "gameStatus g" False] assms
    by (cases "advance_teams (settings g) (players g) (teams g) (winner g, gameStatus g, False)") simp
  then show ?thesis
    by (simp add: race_step_def Let_def)
qed

lemma tick_winner_set:
  assumes "winner (gameState s) = Some w"
  shows "winner (gameState (fst (tick now s))) = Some w"
proof -
  have "winner (fst (tick_game now (gameState s))) = Some w"
    using assms race_step_winner_set [OF assms]
    by (cases "race_step (gameState s)") (simp add: tick_game_def decay_def)
  then show ?thesis
    by (cases "tick_game now (gameState s)") (simp add: tick_def)
qed

lemma on_close_winner: "winner (gameState (fst (on_close ws l s))) = winner (gameState s)"
  by (simp add: on_close_def Let_def split: option.splits)

lemma register_player_winner:
  "winner (gameState (snd (fst (register_player ws now newId d l s)))) = winner (gameState s)"
  by (simp add: register_player_def Let_def split: option.splits)

lemma update_shake_winner: "winner (gameState (update_shake now d l s)) = winner (gameState s)"
  by (simp add: update_shake_def Let_def split: option.splits)

lemma update_settings_winner:
  "winner (gameState (fst (update_settings d l s))) = winner (gameState s)"
  by (simp add: update_settings_def initializeTeams_def Let_def)

lemma start_race_winner:
  "winner (gameState (fst (start_race now l s))) =
     (if may_control l \<and> int (registeredCount (gameState s)) \<ge> minTeams (settings (gameState s))
      then None else winner (gameState s))"
  by (simp add: start_race_def may_control_def Let_def)

lemma reset_game_winner:
  "winner (gameState (fst (reset_game l s))) = (if may_control l then None else winner (gameState s))"
  by (simp add: reset_game_def may_control_def initializeTeams_def Let_def)

lemma handle_message_winner:
  "winner (gameState (snd (fst (handle_message ws now newId r l s)))) =
     (if may_control l \<and>
         (msg_type r = Some ''reset_game''
          \<or> msg_type r = Some ''start_race''
             \<and> int (registeredCount (gameState s)) \<ge> minTeams (settings (gameState s)))
      then None else winner (gameState s))"
proof (cases r)
  case Unparsable
  then show ?thesis by (simp add: handle_message_def msg_type_def)
next
  case (Data d)
  show ?thesis
    unfolding Data handle_message_srv msg_type_def
    by (simp add: register_player_winner update_shake_winner update_settings_winner
        start_race_winner reset_game_winner)
qed

text \<open>
  C1 (as amended). Once \<^verbatim>\<open>gameState.winner\<close> is set to a team, every later tick, every
  disconnect and every inbound message keeps it, with two exceptions that both clear
  it: \<^verbatim>\<open>reset_game\<close> from an admin or display connection, and \<^verbatim>\<open>start_race\<close> from an
  admin or display connection while at least \<^verbatim>\<open>minTeams\<close> teams have a member. No
  handler replaces a set winner by another team directly; in particular the loop over
  the teams, from the moment one team has been made the winner, keeps that winner for
  the rest of the tick.
\<close>

theorem winner_kept:
  assumes "winner (gameState s) = Some w"
  shows "winner (gameState (fst (tick now s))) = Some w
    \<and> winner (gameState (fst (on_close ws l s))) = Some w
    \<and> (if may_control l \<and>
          (msg_type r = Some ''reset_game''
           \<or> msg_type r = Some ''start_race''
              \<and> int (registeredCount (gameState s)) \<ge> minTeams (settings (gameState s)))
        then winner (gameState (snd (fst (handle_message ws now newId r l s)))) = None
        else winner (gameState (snd (fst (handle_message ws now newId r l s)))) = Some w)
    \<and> snd (advance_teams st ps ts (Some w, gs, hw)) = (Some w, gs, hw)"
  using assms tick_winner_set [OF assms, of now]
  by (simp add: on_close_winner handle_message_winner advance_teams_winner_set)

text \<open>After the first race of the scenario team 1 is the winner; a later tick, the
  winner's disconnect and an admin's \<^verbatim>\<open>update_settings\<close> all keep it.\<close>

theorem winner_kept_witness:
  "winner (gameState (srv (run initial_system first_race))) = Some 1
   \<and> winner (gameState (fst (tick 1100 (srv (run initial_system first_race))))) = Some 1
   \<and> winner (gameState (fst (on_close 1 (player_local ''p1'') (srv (run initial_system first_race))))) = Some 1
   \<and> winner (gameState (snd (fst (handle_message 3 1060 ''x'' (Data (msg ''update_settings'')) admin_local
        (srv (run initial_system first_race)))))) = Some 1
   \<and> winner (gameState (snd (fst (handle_message 3 1060 ''x'' (Data (msg ''reset_game'')) admin_local
        (srv (run initial_system first_race)))))) = None"
proof -
  have h: "winner (gameState (srv (run initial_system first_race))) = Some 1"
    by code_simp
  have c': "may_control admin_local \<and>
          (msg_type (Data (msg ''reset_game'')) = Some ''reset_game''
           \<or> msg_type (Data (msg ''reset_game'')) = Some ''start_race''
              \<and> int (registeredCount (gameState (srv (run initial_system first_race))))
                  \<ge> minTeams (settings (gameState (srv (run initial_system first_race)))))"
    by (simp add: msg_type_def msg_def may_control_def admin_local_def)
  from winner_kept [OF h, where l = admin_local and r = "Data (msg ''reset_game'')"
      and ws = 3 and now = 1060 and newId = "''x''"] c'
  have d: "winner (gameState (snd (fst (handle_message 3 1060 ''x'' (Data (msg ''reset_game'')) admin_local
        (srv (run initial_system first_race)))))) = None"
    by (simp only: if_True simp_thms)
  have c: "\<not> (may_control admin_local \<and>
          (msg_type (Data (msg ''update_settings'')) = Some ''reset_game''
           \<or> msg_type (Data (msg ''update_settings'')) = Some ''start_race''
              \<and> int (registeredCount (gameState (srv (run initial_system first_race))))
                  \<ge> minTeams (settings (gameState (srv (run initial_system first_race))))))"
    by (simp add: msg_type_def msg_def)
  from winner_kept [OF h, where now = 1100 and ws = 1 and l = "player_local ''p1''"]
  have a: "winner (gameState (fst (tick 1100 (srv (run initial_system first_race))))) = Some 1"
    and b: "winner (gameState (fst (on_close 1 (player_local ''p1'') (srv (run initial_system first_race))))) = Some 1"
    by blast+
  from winner_kept [OF h, where l = admin_local and r = "Data (msg ''update_settings'')"
      and ws = 3 and now = 1060 and newId = "''x''"] c
  have "winner (gameState (snd (fst (handle_message 3 1060 ''x'' (Data (msg ''update_settings'')) admin_local
        (srv (run initial_system first_race)))))) = Some 1"
    by (simp only: if_False simp_thms)
  with h a b d show ?thesis by (simp only: simp_thms)
qed

text \<open>C1 as stated fails. Team 1 wins the first race; the admin's \<^verbatim>\<open>start_race\<close>, with
  no \<^verbatim>\<open>reset_game\<close> anywhere in the run, clears the winner, and the next finishing tick
  assigns team 2.\<close>

theorem winner_reassigned_counterexample:
  "winner (game_of (run initial_system first_race)) = Some 1
   \<and> winner (game_of (run initial_system (first_race @ [restart]))) = None
   \<and> winner (game_of (run initial_system (first_race @ second_race))) = Some 2
   \<and> Some ''reset_game'' \<notin> set (map event_type (first_race @ second_race))"
  by code_simp

section \<open>The game status\<close>

lemma register_player_status:
  "gameStatus (gameState (snd (fst (register_player ws now newId d l s)))) = gameStatus (gameState s)"
  by (simp add: register_player_def Let_def split: option.splits)

lemma update_shake_status: "gameStatus (gameState (update_shake now d l s)) = gameStatus (gameState s)"
  by (simp add: update_shake_def Let_def split: option.splits)

lemma update_settings_status:
  "gameStatus (gameState (fst (update_settings d l s))) = gameStatus (gameState s)"
  by (simp add: update_settings_def initializeTeams_def Let_def)

lemma start_race_status:
  "gameStatus (gameState (fst (start_race now l s))) =
     (if may_control l \<and> int (registeredCount (gameState s)) \<ge> minTeams (settings (gameState s))
      then Racing else gameStatus (gameState s))"
  by (simp add: start_race_def may_control_def Let_def)

lemma reset_game_status:
  "gameStatus (gameState (fst (reset_game l s))) =
     (if may_control l then Registration else gameStatus (gameState s))"
  by (simp add: reset_game_def may_control_def initializeTeams_def Let_def)

text \<open>
  C3 (as amended). Whatever the status before, an inbound message changes
  \<^verbatim>\<open>gameStatus\<close> in two cases only: \<^verbatim>\<open>reset_game\<close> from an admin or display connection
  sets it to Registration, and \<^verbatim>\<open>start_race\<close> from an admin or display connection, while
  at least \<^verbatim>\<open>minTeams\<close> teams have a member, sets it to Racing; \<^verbatim>\<open>start_race\<close> has no
  guard on the current status, so this includes Finished and Racing. Every other message
  keeps the status, so only \<^verbatim>\<open>reset_game\<close> leads back to Registration. A \<^verbatim>\<open>start_race\<close>
  whose guard fails changes nothing and sends nothing.
\<close>

theorem status_changed_by_reset_or_start:
  "gameStatus (gameState (snd (fst (handle_message ws now newId r l s)))) =
     (if may_control l \<and> msg_type r = Some ''reset_game'' then Registration
      else if may_control l \<and> msg_type r = Some ''start_race''
              \<and> int (registeredCount (gameState s)) \<ge> minTeams (settings (gameState s))
      then Racing
      else gameStatus (gameState s))
   \<and> (msg_type r = Some ''start_race''
        \<and> \<not> (may_control l \<and> int (registeredCount (gameState s)) \<ge> minTeams (settings (gameState s)))
      \<longrightarrow> handle_message ws now newId r l s = ((l, s), []))"
proof (cases r)
  case Unparsable
  then show ?thesis by (simp add: handle_message_def msg_type_def)
next
  case (Data d)
  have a: "gameStatus (gameState (snd (fst (handle_message ws now newId (Data d) l s)))) =
     (if may_control l \<and> m_type d = ''reset_game'' then Registration
      else if may_control l \<and> m_type d = ''start_race''
              \<and> int (registeredCount (gameState s)) \<ge> minTeams (settings (gameState s))
      then Racing
      else gameStatus (gameState s))"
    unfolding handle_message_srv
    by (simp add: register_player_status update_shake_status update_settings_status
        start_race_status reset_game_status)
  have b: "m_type d = ''start_race''
        \<and> \<not> (may_control l \<and> int (registeredCount (gameState s)) \<ge> minTeams (settings (gameState s)))
      \<longrightarrow> handle_message ws now newId (Data d) l s = ((l, s), [])"
    using start_race_rejected [of l s now] by (auto simp: handle_message_def)
  from a b show ?thesis by (simp add: Data msg_type_def)
qed

text \<open>In the Finished state of the scenario, a \<^verbatim>\<open>start_race\<close> sent by a player
  connection is dropped.\<close>

theorem status_changed_by_reset_or_start_witness:
  "gameStatus (gameState (srv (run initial_system first_race))) = Finished
   \<and> gameStatus (gameState (snd (fst (handle_message 1 1060 ''x'' (Data (msg ''start_race''))
        (player_local ''p1'') (srv (run initial_system first_race)))))) = Finished
   \<and> handle_message 1 1060 ''x'' (Data (msg ''start_race'')) (player_local ''p1'')
        (srv (run initial_system first_race))
       = ((player_local ''p1'', srv (run initial_system first_race)), [])"
proof -
  let ?s = "srv (run initial_system first_race)"
  have h: "gameStatus (gameState ?s) = Finished" by code_simp
  have nc: "\<not> may_control (player_local ''p1'')"
    by (simp add: may_control_def player_local_def)
  have ty: "msg_type (Data (msg ''start_race'')) = Some ''start_race''"
    by (simp add: msg_type_def msg_def)
  note inst = status_changed_by_reset_or_start [where ws = 1 and now = 1060 and newId = "''x''"
      and r = "Data (msg ''start_race'')" and l = "player_local ''p1''" and s = ?s]
  from inst nc have a: "gameStatus (gameState (snd (fst (handle_message 1 1060 ''x'' (Data (msg ''start_race''))
        (player_local ''p1'') ?s)))) = gameStatus (gameState ?s)"
    by (simp only: simp_thms if_False)
  from inst nc ty have b: "handle_message 1 1060 ''x'' (Data (msg ''start_race'')) (player_local ''p1'') ?s
       = ((player_local ''p1'', ?s), [])"
    by (simp only: simp_thms)
  from a b h show ?thesis by (simp only: simp_thms)
qed

text \<open>C3 as stated fails. The admin's \<^verbatim>\<open>start_race\<close> takes the Finished game back to
  Racing; and sent during a race it is not a no-op either: team 1, at 5/11 after one
  tick, is back at 0.\<close>

theorem restart_from_finished_counterexample:
  "gameStatus (game_of (run initial_system first_race)) = Finished
   \<and> gameStatus (game_of (run initial_system (first_race @ [restart]))) = Racing
   \<and> gameStatus (game_of (run initial_system (racing_idle @ [Tick 1050]))) = Racing
   \<and> position_of (game_of (run initial_system (racing_idle @ [Tick 1050]))) 1 = Some (5 / 11)
   \<and> position_of (game_of (run initial_system
        (racing_idle @ [Tick 1050, Message 2 1060 ''x'' (Data (msg ''start_race''))]))) 1 = Some 0"
  by code_simp

section \<open>Team positions\<close>











section \<open>Order of integration and decay\<close>

text \<open>
  C5 (as amended). In every tick the position integration of the Racing branch runs
  before the decay pass: each team with a member gets as aggregate the sum of its
  members' intensities as they were before this tick's decay, and advances by that sum
  times \<^verbatim>\<open>speedCoef * baseSpeed * 0.05\<close>; the decay is applied to the registry afterwards
  and shows in the aggregates of the next tick only.
\<close>

theorem integrate_then_decay:
  "(gameStatus g = Racing \<longrightarrow>
      map (\<lambda>(k, t). (k, t_shakeIntensity t, t_position t)) (teams (fst (tick_game now g)))
      = map (\<lambda>(k, t). if t_players t \<noteq> []
               then (k, totalIntensity (players g) (t_players t),
                     t_position t + totalIntensity (players g) (t_players t)
                        * speedCoef (settings g) * baseSpeed (settings g) * 0.05)
               else (k, t_shakeIntensity t, t_position t)) (teams g))
   \<and> players (fst (tick_game now g)) pid = map_option (decay_player now) (players g pid)"
proof (intro conjI impI)
  assume r: "gameStatus g = Racing"
  show "map (\<lambda>(k, t). (k, t_shakeIntensity t, t_position t)) (teams (fst (tick_game now g)))
      = map (\<lambda>(k, t). if t_players t \<noteq> []
               then (k, totalIntensity (players g) (t_players t),
                     t_position t + totalIntensity (players g) (t_players t)
                        * speedCoef (settings g) * baseSpeed (settings g) * 0.05)
               else (k, t_shakeIntensity t, t_position t)) (teams g)"
    by (simp add: tick_game_teams_racing [OF r] advance_team_fst split_def)
next
  show "players (fst (tick_game now g)) pid = map_option (decay_player now) (players g pid)"
    by (rule tick_game_players)
qed

text \<open>The idle player of the scenario holds 3 when the tick at 2000 starts: team 1 is
  credited 3 and advances to 5/11, and only then the player decays to 5/2.\<close>

theorem integrate_then_decay_witness:
  "gameStatus (game_of (run initial_system racing_idle)) = Racing
   \<and> map (\<lambda>(k, t). (k, t_shakeIntensity t, t_position t))
        (take 2 (teams (fst (tick_game 2000 (game_of (run initial_system racing_idle))))))
     = [(1, 3, 5 / 11), (2, 0, 0)]
   \<and> map_option p_shakeIntensity
        (players (fst (tick_game 2000 (game_of (run initial_system racing_idle)))) ''p1'')
     = Some (5 / 2)"
proof -
  let ?g = "game_of (run initial_system racing_idle)"
  have h: "gameStatus ?g = Racing" by code_simp
  have t: "take 2 (map (\<lambda>(k, t). if t_players t \<noteq> []
               then (k, totalIntensity (players ?g) (t_players t),
                     t_position t + totalIntensity (players ?g) (t_players t)
                        * speedCoef (settings ?g) * baseSpeed (settings ?g) * 0.05)
               else (k, t_shakeIntensity t, t_position t)) (teams ?g)) = [(1, 3, 5 / 11), (2, 0, 0)]"
    by code_simp
  have p: "map_option p_shakeIntensity (map_option (decay_player 2000) (players ?g ''p1'')) = Some (5 / 2)"
    by code_simp
  from integrate_then_decay [of ?g 2000 "''p1''"] h
  have eq: "map (\<lambda>(k, t). (k, t_shakeIntensity t, t_position t)) (teams (fst (tick_game 2000 ?g)))
      = map (\<lambda>(k, t). if t_players t \<noteq> []
               then (k, totalIntensity (players ?g) (t_players t),
                     t_position t + totalIntensity (players ?g) (t_players t)
                        * speedCoef (settings ?g) * baseSpeed (settings ?g) * 0.05)
               else (k, t_shakeIntensity t, t_position t)) (teams ?g)"
    and pl: "players (fst (tick_game 2000 ?g)) ''p1'' = map_option (decay_player 2000) (players ?g ''p1'')"
    by blast+
  have "map (\<lambda>(k, t). (k, t_shakeIntensity t, t_position t)) (take 2 (teams (fst (tick_game 2000 ?g))))
      = take 2 (map (\<lambda>(k, t). (k, t_shakeIntensity t, t_position t)) (teams (fst (tick_game 2000 ?g))))"
    by (simp only: take_map)
  also have "\<dots> = [(1, 3, 5 / 11), (2, 0, 0)]"
    by (simp only: eq t)
  finally show ?thesis using h p pl by simp
qed

text \<open>C5 as stated fails: the source moves team 1 to 5/11 in that tick, whereas decay
  before integration would credit 5/2 and move it to 25/66.\<close>

theorem decay_first_counterexample:
  "map_option t_position (map_of (teams (fst (tick_game 2000 (game_of (run initial_system racing_idle))))) 1)
     = Some (5 / 11)
   \<and> map_option t_position (map_of (teams (tick_decay_first 2000 (game_of (run initial_system racing_idle)))) 1)
     = Some (25 / 66)"
  by code_simp

section \<open>The decay pass\<close>



section \<open>Registration\<close>

subsection \<open>Team capacity\<close>







subsection \<open>Team names\<close>

text \<open>
  C6 (as amended). A \<^verbatim>\<open>register_player\<close> for a team that has at least one member at that
  moment never alters any team's name, whatever name it proposes. A registration for a
  team whose member list is empty, be it a fresh team or one that all earlier members
  have left, sets the team's name to the proposed name when that name is not empty
  and the capacity is positive.
\<close>

theorem name_kept_while_team_has_members:
  "m_type d = ''register_player'' \<and> m_teamId d = Some k \<and> map_of (teams (gameState s)) k = Some tm \<longrightarrow>
     (t_players tm \<noteq> [] \<longrightarrow>
        team_name_of (gameState (snd (fst (handle_message ws now newId (Data d) l s)))) k'
          = team_name_of (gameState s) k')
     \<and> (t_players tm = [] \<and> m_teamName d \<noteq> [] \<and> 0 < maxPlayers (settings (gameState s)) \<longrightarrow>
        team_name_of (gameState (snd (fst (handle_message ws now newId (Data d) l s)))) k
          = Some (m_teamName d))"
proof (intro impI, elim conjE)
  assume ty: "m_type d = ''register_player''" and k: "m_teamId d = Some k"
    and tm: "map_of (teams (gameState s)) k = Some tm"
  have hm: "handle_message ws now newId (Data d) l s = register_player ws now newId d l s"
    using ty by (simp add: handle_message_def)
  show "(t_players tm \<noteq> [] \<longrightarrow>
        team_name_of (gameState (snd (fst (handle_message ws now newId (Data d) l s)))) k'
          = team_name_of (gameState s) k')
     \<and> (t_players tm = [] \<and> m_teamName d \<noteq> [] \<and> 0 < maxPlayers (settings (gameState s)) \<longrightarrow>
        team_name_of (gameState (snd (fst (handle_message ws now newId (Data d) l s)))) k
          = Some (m_teamName d))"
  proof (cases "int (length (t_players tm)) \<ge> maxPlayers (settings (gameState s))")
    case True
    from register_player_rejected [OF k tm True] show ?thesis
      using True by (auto simp: hm)
  next
    case False
    from register_player_accepted [OF k tm False, of ws now newId l] tm show ?thesis
      by (auto simp: hm team_name_of_def map_of_update_team)
  qed
qed

text \<open>Team 1 is called Red and has one member; a second registrant proposing Blue
  leaves the name Red.\<close>

theorem name_kept_while_team_has_members_witness:
  "m_type (register_msg 1 ''Blue'') = ''register_player''
   \<and> m_teamId (register_msg 1 ''Blue'') = Some 1
   \<and> members_of (gameState (srv (run initial_system first_join))) 1 = Some [''p1'']
   \<and> team_name_of (gameState (srv (run initial_system first_join))) 1 = Some ''Red''
   \<and> team_name_of (gameState (snd (fst (handle_message 2 1001 ''p2'' (Data (register_msg 1 ''Blue''))
          initial_local (srv (run initial_system first_join)))))) 1
       = Some ''Red''
   \<and> members_of (gameState initial_server) 1 = Some []
   \<and> team_name_of (gameState (snd (fst (handle_message 2 1001 ''p2'' (Data (register_msg 1 ''Blue''))
          initial_local initial_server)))) 1
       = Some ''Blue''"
proof -
  let ?t0 = "\<lparr>t_id = 1, t_name = [], t_players = [], t_position = 0, t_shakeIntensity = 0\<rparr>"
  have e1: "map_of (teams (gameState initial_server)) 1 = Some ?t0"
    by code_simp
  have e2: "t_players ?t0 = [] \<and> m_teamName (register_msg 1 ''Blue'') \<noteq> []
      \<and> 0 < maxPlayers (settings (gameState initial_server))"
    by code_simp
  have e3: "members_of (gameState initial_server) 1 = Some []"
    by code_simp
  have e4: "m_teamName (register_msg 1 ''Blue'') = ''Blue''"
    by (simp add: register_msg_def msg_def)
  let ?s = "srv (run initial_system first_join)"
  let ?tm = "\<lparr>t_id = 1, t_name = ''Red'', t_players = [''p1''], t_position = 0, t_shakeIntensity = 0\<rparr>"
  have h1: "m_type (register_msg 1 ''Blue'') = ''register_player''"
    and h2: "m_teamId (register_msg 1 ''Blue'') = Some 1"
    by (simp_all add: register_msg_def msg_def)
  have h3: "map_of (teams (gameState ?s)) 1 = Some ?tm"
    by code_simp
  have h4: "team_name_of (gameState ?s) 1 = Some ''Red''"
    by code_simp
  have h5: "members_of (gameState ?s) 1 = Some [''p1'']"
    by code_simp
  from name_kept_while_team_has_members [of "register_msg 1 ''Blue''" 1 ?s ?tm
      2 1001 "''p2''" initial_local 1] h1 h2 h3
  have "team_name_of (gameState (snd (fst (handle_message 2 1001 ''p2'' (Data (register_msg 1 ''Blue''))
          initial_local ?s)))) 1 = team_name_of (gameState ?s) 1"
    by simp
  moreover
  from name_kept_while_team_has_members [of "register_msg 1 ''Blue''" 1 initial_server ?t0
      2 1001 "''p2''" initial_local 1] h1 h2 e1 e2
  have "team_name_of (gameState (snd (fst (handle_message 2 1001 ''p2'' (Data (register_msg 1 ''Blue''))
          initial_local initial_server)))) 1 = Some (m_teamName (register_msg 1 ''Blue''))"
    by blast
  ultimately show ?thesis using h1 h2 h4 h5 e3 e4 by (simp only: simp_thms)
qed

text \<open>C6 as stated fails: team 1 is named Red by its first member; that member
  disconnects; the next registrant proposes Blue, and the team is now called Blue.\<close>

theorem name_overwritten_counterexample:
  "team_name_of (game_of (run initial_system first_join)) 1 = Some ''Red''
   \<and> team_name_of (game_of (run initial_system rejoin_after_leave)) 1 = Some ''Blue''"
  by code_simp

subsection \<open>A second registration on the same connection\<close>



section \<open>Registry and member lists after a change of settings\<close>

text \<open>
  C7 asks that after every operation each player record names a team whose member list
  contains the player. The \<^verbatim>\<open>update_settings\<close> branch breaks this: it calls
  \<^verbatim>\<open>initializeTeams\<close>, which replaces all teams by fresh ones without members, and leaves
  \<^verbatim>\<open>gameState.players\<close> as it is. After one registration and an admin's
  \<^verbatim>\<open>update_settings\<close>, the registry still holds \<open>p1\<close> with team 1, and team 1 has no
  member. The \<^verbatim>\<open>reset_game\<close> branch, which calls \<^verbatim>\<open>initializeTeams\<close> as well, empties the
  registry first.
\<close>

theorem update_settings_orphans_players:
  "map_option p_teamId (players (game_of (run initial_system settings_after_join)) ''p1'') = Some 1
   \<and> members_of (game_of (run initial_system settings_after_join)) 1 = Some []
   \<and> players (game_of (run initial_system reset_after_join)) ''p1'' = None
   \<and> members_of (game_of (run initial_system reset_after_join)) 1 = Some []"
  by code_simp

section \<open>Unrecognized message types\<close>




end
